theory Spec2Isabelle
  imports Main
begin

section \<open>Data model of the authentication controller\<close>

text \<open>
  The controller \<^verbatim>\<open>src/controller/auth-controller.ts\<close> is a class whose constructor
  receives its collaborators (user service, logger, password-hash service, image storage,
  token service) and whose five handlers \<^verbatim>\<open>register\<close>, \<^verbatim>\<open>login\<close>, \<^verbatim>\<open>self\<close>,
  \<^verbatim>\<open>refreshTokenGenerate\<close> and \<^verbatim>\<open>logout\<close> call them in sequence, awaiting each call
  before the next statement runs.

  Document ids are opaque values. The handlers only pass them on (\<^verbatim>\<open>String(user.id)\<close>
  yields the textual form of the same id), so one type stands for an id and its text.
\<close>

type_synonym object_id = nat

record user =
  u_id :: object_id
  u_userName :: string
  u_email :: string
  u_password :: string
  u_bio :: "string option"
  u_profileImage :: string

text \<open>The argument object of \<^verbatim>\<open>userService.createUser\<close>.\<close>

record user_fields =
  f_userName :: string
  f_email :: string
  f_password :: string
  f_bio :: "string option"
  f_profileImage :: string

text \<open>The refresh-token document: its id, the owning user and the expiry instant.\<close>

record refresh_token =
  rt_id :: object_id
  rt_user :: object_id
  rt_expiresAt :: nat

text \<open>
  \<^verbatim>\<open>JwtPayload\<close> as the handlers build it: \<^verbatim>\<open>sub\<close>, \<^verbatim>\<open>email\<close> and, for a refresh
  token only, \<^verbatim>\<open>id\<close>.
\<close>

record jwt_payload =
  sub :: object_id
  email :: string
  id_claim :: "object_id option"

text \<open>
  \<^verbatim>\<open>AuthRequest.auth\<close>: the identity that the token middleware attached to the request.
  The \<^verbatim>\<open>id\<close> field is present for a refresh-token identity only; the handlers read it as
  \<^verbatim>\<open>authReq.auth.id!\<close>, which passes an absent value on unchanged.
\<close>

record auth =
  auth_sub :: object_id
  auth_email :: string
  auth_id :: "object_id option"

text \<open>
  A request as a handler reads it: the messages of \<^verbatim>\<open>validationResult(req).array()\<close>
  in order, the body fields, and \<^verbatim>\<open>req.file?.path\<close>.
\<close>

record register_request =
  rr_validation :: "string list"
  rr_userName :: string
  rr_email :: string
  rr_password :: string
  rr_bio :: "string option"
  rr_file :: "string option"

record login_request =
  lr_validation :: "string list"
  lr_email :: string
  lr_password :: string

record cookie_options =
  domain :: string
  sameSite :: string
  maxAge :: nat
  httpOnly :: bool

datatype http_error = HttpError nat string

datatype json = JNull | JString string | JId object_id | JUser user

text \<open>
  What a handler does to the outside, in the order of its statements: the calls that
  change a collaborator's state (with the value they returned), the log lines, the writes
  to the response, and \<^verbatim>\<open>next(error)\<close>.
\<close>

datatype effect =
    UploadImage string
  | CreateUser user
  | PersistRefreshToken refresh_token
  | DeleteRefreshToken "object_id option"
  | LoggerInfo string "object_id option"
  | ResCookie string string cookie_options
  | ResClearCookie string
  | ResStatus nat
  | ResJson json
  | Next http_error

text \<open>
  The injected collaborators, over a state \<open>'w\<close> that the state-changing calls thread
  through. Lookups, hashing and signing read only. \<^verbatim>\<open>upload\<close> returns the link's
  \<^verbatim>\<open>url\<close>, or \<open>None\<close> for a null link.
\<close>

record 'w services =
  createUser :: "user_fields \<Rightarrow> 'w \<Rightarrow> user \<times> 'w"
  findByEmail :: "string \<Rightarrow> 'w \<Rightarrow> user option"
  findById :: "object_id \<Rightarrow> 'w \<Rightarrow> user option"
  hashPassword :: "string \<Rightarrow> string"
  comparePassword :: "string \<Rightarrow> string \<Rightarrow> bool"
  upload :: "string \<Rightarrow> 'w \<Rightarrow> string option \<times> 'w"
  generateAccessToken :: "jwt_payload \<Rightarrow> string"
  generateRefreshToken :: "jwt_payload \<Rightarrow> string"
  persistRefreshToken :: "user \<Rightarrow> 'w \<Rightarrow> refresh_token \<times> 'w"
  deleteRefreshToken :: "object_id option \<Rightarrow> 'w \<Rightarrow> 'w"

section \<open>The handlers\<close>

definition setCookies :: "string \<Rightarrow> string \<Rightarrow> effect list" where
  "setCookies accessToken refreshToken =
     [ResCookie ''accessToken'' accessToken
        \<lparr>domain = ''localhost'', sameSite = ''strict'',
         maxAge = 1000 * 60 * 60, httpOnly = True\<rparr>,
      ResCookie ''refreshToken'' refreshToken
        \<lparr>domain = ''localhost'', sameSite = ''strict'',
         maxAge = 1000 * 60 * 60 * 24 * 365, httpOnly = True\<rparr>]"

text \<open>
  \<^verbatim>\<open>!profileImageLocalPath\<close> and \<^verbatim>\<open>!profileImageLink || !profileImageLink.url\<close>:
  an absent value and the empty string are both falsy; \<open>truthy\<close> keeps the others.
\<close>

fun truthy :: "string option \<Rightarrow> string option" where
  "truthy None = None"
| "truthy (Some s) = (if s = [] then None else Some s)"

definition register :: "'w services \<Rightarrow> register_request \<Rightarrow> 'w \<Rightarrow> 'w \<times> effect list" where
  "register sv req w =
     (case rr_validation req of
        msg # _ \<Rightarrow> (w, [Next (HttpError 400 msg)])
      | [] \<Rightarrow>
         (let hashedPassword = hashPassword sv (rr_password req)
          in case truthy (rr_file req) of
               None \<Rightarrow> (w, [Next (HttpError 400 ''Please Upload Image'')])
             | Some profileImageLocalPath \<Rightarrow>
                (let (profileImageLink, w1) = upload sv profileImageLocalPath w
                 in case truthy profileImageLink of
                      None \<Rightarrow> (w1, [UploadImage profileImageLocalPath,
                                    Next (HttpError 500 ''Failed to upload image'')])
                    | Some url \<Rightarrow>
                       (let (user, w2) = createUser sv
                              \<lparr>f_userName = rr_userName req, f_email = rr_email req,
                               f_password = hashedPassword, f_bio = rr_bio req,
                               f_profileImage = url\<rparr> w1;
                            payload = \<lparr>sub = u_id user, email = u_email user, id_claim = None\<rparr>;
                            accessToken = generateAccessToken sv payload;
                            (newRefreshToken, w3) = persistRefreshToken sv user w2;
                            refreshToken = generateRefreshToken sv
                              (payload\<lparr>id_claim := Some (rt_id newRefreshToken)\<rparr>)
                        in (w3, [UploadImage profileImageLocalPath, CreateUser user,
                                 PersistRefreshToken newRefreshToken]
                                @ setCookies accessToken refreshToken
                                @ [ResStatus 201, ResJson (JId (u_id user))])))))"

definition login :: "'w services \<Rightarrow> login_request \<Rightarrow> 'w \<Rightarrow> 'w \<times> effect list" where
  "login sv req w =
     (case lr_validation req of
        msg # _ \<Rightarrow> (w, [Next (HttpError 400 msg)])
      | [] \<Rightarrow>
         (case findByEmail sv (lr_email req) w of
            None \<Rightarrow> (w, [Next (HttpError 400 ''Email and password not match!'')])
          | Some user \<Rightarrow>
             (let isPasswordMatch = comparePassword sv (lr_password req) (u_password user)
              in if \<not> isPasswordMatch
                 then (w, [Next (HttpError 400 ''Email and password not match!'')])
                 else
                   (let payload = \<lparr>sub = u_id user, email = u_email user, id_claim = None\<rparr>;
                        accessToken = generateAccessToken sv payload;
                        (newRefreshToken, w1) = persistRefreshToken sv user w;
                        refreshToken = generateRefreshToken sv
                          (payload\<lparr>id_claim := Some (rt_id newRefreshToken)\<rparr>)
                    in (w1, [PersistRefreshToken newRefreshToken]
                            @ setCookies accessToken refreshToken
                            @ [LoggerInfo ''User hasb been logged in successfully'' (Some (u_id user)),
                               ResStatus 200, ResJson (JId (u_id user))])))))"

fun json_of_user :: "user option \<Rightarrow> json" where
  "json_of_user None = JNull"
| "json_of_user (Some u) = JUser u"

definition self :: "'w services \<Rightarrow> auth \<Rightarrow> 'w \<Rightarrow> 'w \<times> effect list" where
  "self sv a w =
     (let user = findById sv (auth_sub a) w
      in (w, [ResJson (json_of_user user)]))"

definition refreshTokenGenerate :: "'w services \<Rightarrow> auth \<Rightarrow> 'w \<Rightarrow> 'w \<times> effect list" where
  "refreshTokenGenerate sv a w =
     (let payload = \<lparr>sub = auth_sub a, email = auth_email a, id_claim = None\<rparr>;
          accessToken = generateAccessToken sv payload
      in case findById sv (auth_sub a) w of
           None \<Rightarrow> (w, [Next (HttpError 400 ''User with token could not found'')])
         | Some user \<Rightarrow>
            (let (newRefreshToken, w1) = persistRefreshToken sv user w;
                 w2 = deleteRefreshToken sv (auth_id a) w1;
                 refreshToken = generateRefreshToken sv
                   (payload\<lparr>id_claim := Some (rt_id newRefreshToken)\<rparr>)
             in (w2, [PersistRefreshToken newRefreshToken, DeleteRefreshToken (auth_id a)]
                     @ setCookies accessToken refreshToken
                     @ [LoggerInfo ''new refresh token generated for'' (Some (auth_sub a)),
                        ResJson (JString ''new refresh token generateds'')])))"

definition logout :: "'w services \<Rightarrow> auth \<Rightarrow> 'w \<Rightarrow> 'w \<times> effect list" where
  "logout sv a w =
     (let w1 = deleteRefreshToken sv (auth_id a) w
      in (w1, [DeleteRefreshToken (auth_id a),
               LoggerInfo ''Refresh token has been deleted'' (auth_id a),
               ResClearCookie ''accessToken'', ResClearCookie ''refreshToken'',
               ResJson (JString ''Successfully logged out'')]))"

section \<open>Calls in sequence\<close>

text \<open>
  Modelled from the spec: the operation surface (register, login, self, refresh, logout),
  whose router is missing from the sources. A request names the handler it reaches and
  carries what that handler reads; a run executes calls one after another on the shared
  state.
\<close>

datatype request =
    Register register_request
  | Login login_request
  | Self auth
  | Refresh auth
  | Logout auth

fun handle :: "'w services \<Rightarrow> request \<Rightarrow> 'w \<Rightarrow> 'w \<times> effect list" where
  "handle sv (Register req) w = register sv req w"
| "handle sv (Login req) w = login sv req w"
| "handle sv (Self a) w = self sv a w"
| "handle sv (Refresh a) w = refreshTokenGenerate sv a w"
| "handle sv (Logout a) w = logout sv a w"

fun run :: "'w services \<Rightarrow> request list \<Rightarrow> 'w \<Rightarrow> 'w" where
  "run sv [] w = w"
| "run sv (r # rs) w = run sv rs (fst (handle sv r w))"

section \<open>Reading a handler's effects\<close>

text \<open>A handler reports success by sending a JSON body; it reports failure through \<^verbatim>\<open>next\<close>.\<close>

fun is_ResJson :: "effect \<Rightarrow> bool" where
  "is_ResJson (ResJson _) = True"
| "is_ResJson _ = False"

definition reported_success :: "effect list \<Rightarrow> bool" where
  "reported_success efs = list_ex is_ResJson efs"

fun persisted :: "effect list \<Rightarrow> refresh_token list" where
  "persisted [] = []"
| "persisted (PersistRefreshToken r # es) = r # persisted es"
| "persisted (_ # es) = persisted es"

fun created :: "effect list \<Rightarrow> user list" where
  "created [] = []"
| "created (CreateUser u # es) = u # created es"
| "created (_ # es) = created es"

fun cookies :: "effect list \<Rightarrow> (string \<times> string \<times> cookie_options) list" where
  "cookies [] = []"
| "cookies (ResCookie name v opts # es) = (name, v, opts) # cookies es"
| "cookies (_ # es) = cookies es"

definition cookie_attributes :: "effect list \<Rightarrow> (string \<times> cookie_options) list" where
  "cookie_attributes efs = map (\<lambda>(name, v, opts). (name, opts)) (cookies efs)"

definition cookie_value :: "string \<Rightarrow> effect list \<Rightarrow> string option" where
  "cookie_value name efs = map_of (map (\<lambda>(n, v, opts). (n, v)) (cookies efs)) name"

section \<open>A refresh call, step by step\<close>

text \<open>
  Two requests can be in flight at once: a call runs alone from one \<^verbatim>\<open>await\<close> to the
  next, and while it is suspended the other call may take a step. So the refresh call is
  also given one awaited step at a time. Before the handler runs, the route's guard (a
  parameter here) admits or turns away the presented identity. The handler then suspends
  at \<^verbatim>\<open>findById\<close>, at \<^verbatim>\<open>persistRefreshToken\<close> and at \<^verbatim>\<open>deleteRefreshToken\<close>; what
  follows the last \<^verbatim>\<open>await\<close> (signing the refresh token, the cookies, the log line, the
  answer) runs without suspension. The access token, signed at the start of the handler
  from the identity alone, is the same value wherever it is computed.
\<close>

datatype progress =
    AtGuard
  | AtFindById
  | AtPersist user
  | AtDelete refresh_token
  | Rejected
  | Finished "effect list"

fun refresh_step ::
  "'w services \<Rightarrow> (auth \<Rightarrow> 'w \<Rightarrow> bool) \<Rightarrow> auth \<Rightarrow> progress \<Rightarrow> 'w \<Rightarrow> progress \<times> 'w" where
  "refresh_step sv guard a AtGuard w =
     (if guard a w then (AtFindById, w) else (Rejected, w))"
| "refresh_step sv guard a AtFindById w =
     (case findById sv (auth_sub a) w of
        None \<Rightarrow> (Finished [Next (HttpError 400 ''User with token could not found'')], w)
      | Some user \<Rightarrow> (AtPersist user, w))"
| "refresh_step sv guard a (AtPersist user) w =
     (let (newRefreshToken, w1) = persistRefreshToken sv user w
      in (AtDelete newRefreshToken, w1))"
| "refresh_step sv guard a (AtDelete newRefreshToken) w =
     (let payload = \<lparr>sub = auth_sub a, email = auth_email a, id_claim = None\<rparr>;
          accessToken = generateAccessToken sv payload;
          w2 = deleteRefreshToken sv (auth_id a) w;
          refreshToken = generateRefreshToken sv
            (payload\<lparr>id_claim := Some (rt_id newRefreshToken)\<rparr>)
      in (Finished
            ([PersistRefreshToken newRefreshToken, DeleteRefreshToken (auth_id a)]
             @ setCookies accessToken refreshToken
             @ [LoggerInfo ''new refresh token generated for'' (Some (auth_sub a)),
                ResJson (JString ''new refresh token generateds'')]), w2))"
| "refresh_step sv guard a Rejected w = (Rejected, w)"
| "refresh_step sv guard a (Finished efs) w = (Finished efs, w)"







section \<open>The collaborators\<close>

text \<open>
  Modelled from the spec: the state owned by the collaborators, whose code is missing from
  the sources: a user directory and a refresh-token store, each allocating ids from a
  counter, and a clock.
\<close>

record world =
  users :: "user list"
  nextUserId :: object_id
  refreshTokens :: "object_id \<rightharpoonup> refresh_token"
  nextTokenId :: object_id
  clock :: nat

text \<open>
  Modelled from the spec: the user directory's \<^verbatim>\<open>createUser(fields) -> User\<close>, which
  is missing from the sources. It stores a user with a new unique id and returns it.
\<close>

definition UserService_createUser :: "user_fields \<Rightarrow> world \<Rightarrow> user \<times> world" where
  "UserService_createUser f w =
     (let u = \<lparr>u_id = nextUserId w, u_userName = f_userName f, u_email = f_email f,
               u_password = f_password f, u_bio = f_bio f,
               u_profileImage = f_profileImage f\<rparr>
      in (u, w\<lparr>users := users w @ [u], nextUserId := Suc (nextUserId w)\<rparr>))"

text \<open>
  Modelled from the spec: the user directory's \<^verbatim>\<open>findByEmail(email) -> User|null\<close>,
  which is missing from the sources.
\<close>

definition UserService_findByEmail :: "string \<Rightarrow> world \<Rightarrow> user option" where
  "UserService_findByEmail e w = find (\<lambda>u. u_email u = e) (users w)"

text \<open>
  Modelled from the spec: the user directory's \<^verbatim>\<open>findById(id) -> User|null\<close>, which is
  missing from the sources.
\<close>

definition UserService_findById :: "object_id \<Rightarrow> world \<Rightarrow> user option" where
  "UserService_findById i w = find (\<lambda>u. u_id u = i) (users w)"

text \<open>
  Modelled from the spec: the refresh-token store's \<^verbatim>\<open>create(userId) -> record\<close>, which
  is missing from the sources: it "allocates a new unique id, sets expiry = now + TTL,
  persists, returns the record", the TTL being one year.
\<close>

definition store_create :: "object_id \<Rightarrow> world \<Rightarrow> refresh_token \<times> world" where
  "store_create uid w =
     (let r = \<lparr>rt_id = nextTokenId w, rt_user = uid,
               rt_expiresAt = clock w + 1000 * 60 * 60 * 24 * 365\<rparr>
      in (r, w\<lparr>refreshTokens := (refreshTokens w)(rt_id r \<mapsto> r),
               nextTokenId := Suc (nextTokenId w)\<rparr>))"

text \<open>
  Modelled from the spec: the refresh-token store's \<^verbatim>\<open>findById(id) -> record | null\<close>,
  which is missing from the sources.
\<close>

definition store_findById :: "object_id \<Rightarrow> world \<Rightarrow> refresh_token option" where
  "store_findById i w = refreshTokens w i"

text \<open>
  Modelled from the spec: the refresh-token store's \<^verbatim>\<open>deleteById(id) -> void\<close>, which is
  missing from the sources: "idempotent -- deleting an absent id is not an error".
\<close>

definition store_deleteById :: "object_id \<Rightarrow> world \<Rightarrow> world" where
  "store_deleteById i w = w\<lparr>refreshTokens := (refreshTokens w)(i := None)\<rparr>"

text \<open>
  Modelled from the spec: the token service's \<^verbatim>\<open>persistRefreshToken(user)\<close>, which is
  missing from the sources: the store's \<^verbatim>\<open>create\<close> for the user's id.
\<close>

definition JwtTokenService_persistRefreshToken :: "user \<Rightarrow> world \<Rightarrow> refresh_token \<times> world" where
  "JwtTokenService_persistRefreshToken u w = store_create (u_id u) w"

text \<open>
  Modelled from the spec: the token service's \<^verbatim>\<open>deleteRefreshToken(id)\<close>, which is
  missing from the sources: the store's \<^verbatim>\<open>deleteById\<close>. An absent id matches no record.
\<close>

definition JwtTokenService_deleteRefreshToken :: "object_id option \<Rightarrow> world \<Rightarrow> world" where
  "JwtTokenService_deleteRefreshToken i w =
     (case i of None \<Rightarrow> w | Some j \<Rightarrow> store_deleteById j w)"

text \<open>
  The services over this state. Hashing, comparing, uploading and signing stay
  parameters: the secret-hash functions \<open>h\<close> and \<open>c\<close>, the blob storage \<open>up\<close> (which
  leaves the state alone) and the two signers \<open>sa\<close> and \<open>sr\<close>.
\<close>

definition services_of ::
  "(string \<Rightarrow> string) \<Rightarrow> (string \<Rightarrow> string \<Rightarrow> bool) \<Rightarrow> (string \<Rightarrow> string option) \<Rightarrow>
   (jwt_payload \<Rightarrow> string) \<Rightarrow> (jwt_payload \<Rightarrow> string) \<Rightarrow> world services" where
  "services_of h c up sa sr =
     \<lparr>createUser = UserService_createUser,
      findByEmail = UserService_findByEmail,
      findById = UserService_findById,
      hashPassword = h,
      comparePassword = c,
      upload = (\<lambda>path w. (up path, w)),
      generateAccessToken = sa,
      generateRefreshToken = sr,
      persistRefreshToken = JwtTokenService_persistRefreshToken,
      deleteRefreshToken = JwtTokenService_deleteRefreshToken\<rparr>"






text \<open>A small instance to run the handlers on: toy hashing and signing, an empty state.\<close>

definition toy_hash :: "string \<Rightarrow> string" where
  "toy_hash p = ''#'' @ p"

definition toy_compare :: "string \<Rightarrow> string \<Rightarrow> bool" where
  "toy_compare p hashed = (hashed = toy_hash p)"

definition toy_upload :: "string \<Rightarrow> string option" where
  "toy_upload path = Some (''img/'' @ path)"

text \<open>
  The toy signer writes every claim into the token, the ids as tally marks, so that
  tokens over different claims differ.
\<close>

definition toy_tally :: "object_id \<Rightarrow> string" where
  "toy_tally n = replicate (Suc n) CHR ''|''"

definition toy_sign :: "string \<Rightarrow> jwt_payload \<Rightarrow> string" where
  "toy_sign kind p =
     kind @ '':'' @ email p @ '':'' @ toy_tally (sub p) @ '':'' @
     (case id_claim p of None \<Rightarrow> ''-'' | Some i \<Rightarrow> toy_tally i)"

definition toy_services :: "world services" where
  "toy_services = services_of toy_hash toy_compare toy_upload (toy_sign ''a'') (toy_sign ''r'')"

definition empty_world :: world where
  "empty_world = \<lparr>users = [], nextUserId = 0, refreshTokens = Map.empty,
                  nextTokenId = 0, clock = 0\<rparr>"

definition alice_register :: register_request where
  "alice_register = \<lparr>rr_validation = [], rr_userName = ''alice'', rr_email = ''a@x.com'',
                     rr_password = ''pw'', rr_bio = None, rr_file = Some ''a.png''\<rparr>"

definition alice_login :: login_request where
  "alice_login = \<lparr>lr_validation = [], lr_email = ''a@x.com'', lr_password = ''pw''\<rparr>"

definition alice :: user where
  "alice = \<lparr>u_id = 0, u_userName = ''alice'', u_email = ''a@x.com'', u_password = ''#pw'',
            u_bio = None, u_profileImage = ''img/a.png''\<rparr>"

text \<open>The state after Alice has registered: her record and her first refresh token.\<close>

definition alice_world :: world where
  "alice_world = \<lparr>users = [alice], nextUserId = 1,
                  refreshTokens = [0 \<mapsto> \<lparr>rt_id = 0, rt_user = 0, rt_expiresAt = 31536000000\<rparr>],
                  nextTokenId = 1, clock = 0\<rparr>"

definition ghost_login :: login_request where
  "ghost_login = \<lparr>lr_validation = [], lr_email = ''nonexistent@x.com'',
                  lr_password = ''anything''\<rparr>"

definition alice_refresh :: auth where
  "alice_refresh = \<lparr>auth_sub = 0, auth_email = ''a@x.com'', auth_id = Some 0\<rparr>"

definition alice_access :: auth where
  "alice_access = \<lparr>auth_sub = 0, auth_email = ''a@x.com'', auth_id = None\<rparr>"

definition ghost_access :: auth where
  "ghost_access = \<lparr>auth_sub = 7, auth_email = ''g@x.com'', auth_id = None\<rparr>"

section \<open>The example state\<close>

lemmas toy_defs = toy_services_def services_of_def toy_hash_def toy_compare_def
  toy_upload_def UserService_createUser_def UserService_findByEmail_def
  UserService_findById_def store_create_def store_findById_def store_deleteById_def
  JwtTokenService_persistRefreshToken_def JwtTokenService_deleteRefreshToken_def
  empty_world_def alice_world_def alice_def alice_register_def alice_login_def
  ghost_login_def alice_refresh_def alice_access_def ghost_access_def

lemma register_alice:
  "register toy_services alice_register empty_world =
     (alice_world,
      [UploadImage ''a.png'', CreateUser alice,
       PersistRefreshToken \<lparr>rt_id = 0, rt_user = 0, rt_expiresAt = 31536000000\<rparr>]
      @ setCookies ''a:a@x.com:|:-'' ''r:a@x.com:|:|'' @ [ResStatus 201, ResJson (JId 0)])"
  by (simp add: register_def toy_defs toy_sign_def toy_tally_def Let_def)

lemma login_alice:
  "login toy_services alice_login alice_world =
     (alice_world
        \<lparr>refreshTokens := (refreshTokens alice_world)
           (1 \<mapsto> \<lparr>rt_id = 1, rt_user = 0, rt_expiresAt = 31536000000\<rparr>),
         nextTokenId := 2\<rparr>,
      [PersistRefreshToken \<lparr>rt_id = 1, rt_user = 0, rt_expiresAt = 31536000000\<rparr>]
      @ setCookies ''a:a@x.com:|:-'' ''r:a@x.com:|:||''
      @ [LoggerInfo ''User hasb been logged in successfully'' (Some 0),
         ResStatus 200, ResJson (JId 0)])"
  by (simp add: login_def toy_defs toy_sign_def toy_tally_def Let_def)

lemma refresh_alice:
  "refreshTokenGenerate toy_services alice_refresh alice_world =
     (alice_world
        \<lparr>refreshTokens := [1 \<mapsto> \<lparr>rt_id = 1, rt_user = 0, rt_expiresAt = 31536000000\<rparr>],
         nextTokenId := 2\<rparr>,
      [PersistRefreshToken \<lparr>rt_id = 1, rt_user = 0, rt_expiresAt = 31536000000\<rparr>,
       DeleteRefreshToken (Some 0)]
      @ setCookies ''a:a@x.com:|:-'' ''r:a@x.com:|:||''
      @ [LoggerInfo ''new refresh token generated for'' (Some 0),
         ResJson (JString ''new refresh token generateds'')])"
  by (simp add: refreshTokenGenerate_def toy_defs toy_sign_def toy_tally_def Let_def
      fun_upd_twist)

section \<open>What each handler can do\<close>

lemma register_outcome:
  "(\<exists>e. snd (register sv req w) = [Next e])
   \<or> (\<exists>p e. snd (register sv req w) = [UploadImage p, Next e])
   \<or> (\<exists>p u r. snd (register sv req w) =
          [UploadImage p, CreateUser u, PersistRefreshToken r]
          @ setCookies (generateAccessToken sv \<lparr>sub = u_id u, email = u_email u, id_claim = None\<rparr>)
                       (generateRefreshToken sv
                          \<lparr>sub = u_id u, email = u_email u, id_claim = Some (rt_id r)\<rparr>)
          @ [ResStatus 201, ResJson (JId (u_id u))])"
  by (simp add: register_def Let_def split: list.splits option.splits prod.splits)

lemma login_outcome:
  "(\<exists>e. snd (login sv req w) = [Next e])
   \<or> (\<exists>u r. findByEmail sv (lr_email req) w = Some u
          \<and> comparePassword sv (lr_password req) (u_password u)
          \<and> snd (login sv req w) =
          [PersistRefreshToken r]
          @ setCookies (generateAccessToken sv \<lparr>sub = u_id u, email = u_email u, id_claim = None\<rparr>)
                       (generateRefreshToken sv
                          \<lparr>sub = u_id u, email = u_email u, id_claim = Some (rt_id r)\<rparr>)
          @ [LoggerInfo ''User hasb been logged in successfully'' (Some (u_id u)),
             ResStatus 200, ResJson (JId (u_id u))])"
  by (simp add: login_def Let_def split: list.splits option.splits prod.splits)

lemma refresh_outcome:
  "(\<exists>e. snd (refreshTokenGenerate sv a w) = [Next e])
   \<or> (\<exists>u r. findById sv (auth_sub a) w = Some u
          \<and> snd (refreshTokenGenerate sv a w) =
          [PersistRefreshToken r, DeleteRefreshToken (auth_id a)]
          @ setCookies (generateAccessToken sv
                          \<lparr>sub = auth_sub a, email = auth_email a, id_claim = None\<rparr>)
                       (generateRefreshToken sv
                          \<lparr>sub = auth_sub a, email = auth_email a, id_claim = Some (rt_id r)\<rparr>)
          @ [LoggerInfo ''new refresh token generated for'' (Some (auth_sub a)),
             ResJson (JString ''new refresh token generateds'')])"
  by (simp add: refreshTokenGenerate_def Let_def split: list.splits option.splits prod.splits)

section \<open>Input validation\<close>

text \<open>
  Claim C6. A register or login request whose input validation yields at least one
  violation fails with error 400 carrying the first violation's message. The handler
  returns before it calls any collaborator: the state is the one it started from, so no
  user is created, no password hash is stored and no refresh-token record is persisted,
  and the only effect is the call of \<^verbatim>\<open>next\<close>.
\<close>

theorem validation_failure_rejects:
  "(rr_validation rreq \<noteq> [] \<longrightarrow>
      register sv rreq w = (w, [Next (HttpError 400 (hd (rr_validation rreq)))]))
   \<and> (lr_validation lreq \<noteq> [] \<longrightarrow>
      login sv lreq w = (w, [Next (HttpError 400 (hd (lr_validation lreq)))]))"
  by (simp add: register_def login_def split: list.splits)

theorem validation_failure_rejects_witness:
  "rr_validation (alice_register\<lparr>rr_validation := [''Email is required!'', ''Password is required!'']\<rparr>) \<noteq> []
   \<and> register toy_services
         (alice_register\<lparr>rr_validation := [''Email is required!'', ''Password is required!'']\<rparr>)
         empty_world
       = (empty_world, [Next (HttpError 400 ''Email is required!'')])
   \<and> lr_validation (alice_login\<lparr>lr_validation := [''Password is required!'']\<rparr>) \<noteq> []
   \<and> login toy_services (alice_login\<lparr>lr_validation := [''Password is required!'']\<rparr>) alice_world
       = (alice_world, [Next (HttpError 400 ''Password is required!'')])"
  using validation_failure_rejects
    [of "alice_register\<lparr>rr_validation := [''Email is required!'', ''Password is required!'']\<rparr>"
        toy_services empty_world
        "alice_login\<lparr>lr_validation := [''Password is required!'']\<rparr>"]
    validation_failure_rejects
    [of "alice_register\<lparr>rr_validation := [''Email is required!'', ''Password is required!'']\<rparr>"
        toy_services alice_world
        "alice_login\<lparr>lr_validation := [''Password is required!'']\<rparr>"]
  by simp

section \<open>Login failures\<close>

text \<open>
  Claim C2. Take two login calls that input validation lets through, one with an email for
  which \<^verbatim>\<open>findByEmail\<close> finds no user, one with an email of a stored user and a secret
  that \<^verbatim>\<open>comparePassword\<close> rejects. Both fail the same way: error 400 with the message
  "Email and password not match!", the state untouched, so the caller cannot tell
  "no such user" from "wrong secret".
\<close>

theorem login_failures_indistinguishable:
  assumes "lr_validation r1 = []" and "lr_validation r2 = []"
    and "findByEmail sv (lr_email r1) w1 = None"
    and "findByEmail sv (lr_email r2) w2 = Some u"
    and "\<not> comparePassword sv (lr_password r2) (u_password u)"
  shows "login sv r1 w1 = (w1, [Next (HttpError 400 ''Email and password not match!'')])
       \<and> login sv r2 w2 = (w2, [Next (HttpError 400 ''Email and password not match!'')])
       \<and> snd (login sv r1 w1) = snd (login sv r2 w2)"
  using assms by (simp add: login_def)

theorem login_failures_indistinguishable_witness:
  "lr_validation ghost_login = []
   \<and> lr_validation (alice_login\<lparr>lr_password := ''wrongpass''\<rparr>) = []
   \<and> findByEmail toy_services (lr_email ghost_login) alice_world = None
   \<and> findByEmail toy_services (lr_email (alice_login\<lparr>lr_password := ''wrongpass''\<rparr>)) alice_world
       = Some alice
   \<and> \<not> comparePassword toy_services
         (lr_password (alice_login\<lparr>lr_password := ''wrongpass''\<rparr>)) (u_password alice)
   \<and> login toy_services ghost_login alice_world
       = (alice_world, [Next (HttpError 400 ''Email and password not match!'')])
   \<and> login toy_services (alice_login\<lparr>lr_password := ''wrongpass''\<rparr>) alice_world
       = (alice_world, [Next (HttpError 400 ''Email and password not match!'')])"
proof -
  have h1: "lr_validation ghost_login = []"
    by (simp add: ghost_login_def)
  have h2: "lr_validation (alice_login\<lparr>lr_password := ''wrongpass''\<rparr>) = []"
    by (simp add: alice_login_def)
  have h3: "findByEmail toy_services (lr_email ghost_login) alice_world = None"
    by (simp add: toy_defs)
  have h4: "findByEmail toy_services (lr_email (alice_login\<lparr>lr_password := ''wrongpass''\<rparr>))
              alice_world = Some alice"
    by (simp add: toy_defs)
  have h5: "\<not> comparePassword toy_services
              (lr_password (alice_login\<lparr>lr_password := ''wrongpass''\<rparr>)) (u_password alice)"
    by (simp add: toy_defs)
  show ?thesis
    using h1 h2 h3 h4 h5 login_failures_indistinguishable [OF h1 h2 h3 h4 h5] by simp
qed

section \<open>The token pair\<close>

text \<open>
  Claim C5. Every register, login or refresh call that reports success sets exactly two
  cookies: \<^verbatim>\<open>accessToken\<close> with domain localhost, same-site strict, http-only and a
  max-age of 3600 seconds (given in milliseconds), and \<^verbatim>\<open>refreshToken\<close> with the same
  attributes and a max-age of 31536000 seconds.
\<close>

theorem token_cookie_attributes:
  assumes "efs = snd (register sv rreq w) \<or> efs = snd (login sv lreq w)
           \<or> efs = snd (refreshTokenGenerate sv a w)"
    and "reported_success efs"
  shows "cookie_attributes efs =
           [(''accessToken'', \<lparr>domain = ''localhost'', sameSite = ''strict'',
                               maxAge = 3600 * 1000, httpOnly = True\<rparr>),
            (''refreshToken'', \<lparr>domain = ''localhost'', sameSite = ''strict'',
                                maxAge = 31536000 * 1000, httpOnly = True\<rparr>)]"
proof -
  consider (reg) "efs = snd (register sv rreq w)" | (log) "efs = snd (login sv lreq w)"
    | (ref) "efs = snd (refreshTokenGenerate sv a w)"
    using assms(1) by blast
  then show ?thesis
  proof cases
    case reg
    with assms(2) register_outcome [of sv rreq w] show ?thesis
      by (auto simp: reported_success_def cookie_attributes_def setCookies_def)
  next
    case log
    with assms(2) login_outcome [of sv lreq w] show ?thesis
      by (auto simp: reported_success_def cookie_attributes_def setCookies_def)
  next
    case ref
    with assms(2) refresh_outcome [of sv a w] show ?thesis
      by (auto simp: reported_success_def cookie_attributes_def setCookies_def)
  qed
qed

theorem token_cookie_attributes_witness:
  "reported_success (snd (register toy_services alice_register empty_world))
   \<and> cookie_attributes (snd (register toy_services alice_register empty_world)) =
        [(''accessToken'', \<lparr>domain = ''localhost'', sameSite = ''strict'',
                            maxAge = 3600000, httpOnly = True\<rparr>),
         (''refreshToken'', \<lparr>domain = ''localhost'', sameSite = ''strict'',
                             maxAge = 31536000000, httpOnly = True\<rparr>)]
   \<and> reported_success (snd (login toy_services alice_login alice_world))
   \<and> cookie_attributes (snd (login toy_services alice_login alice_world)) =
        [(''accessToken'', \<lparr>domain = ''localhost'', sameSite = ''strict'',
                            maxAge = 3600000, httpOnly = True\<rparr>),
         (''refreshToken'', \<lparr>domain = ''localhost'', sameSite = ''strict'',
                             maxAge = 31536000000, httpOnly = True\<rparr>)]
   \<and> reported_success (snd (refreshTokenGenerate toy_services alice_refresh alice_world))
   \<and> cookie_attributes (snd (refreshTokenGenerate toy_services alice_refresh alice_world)) =
        [(''accessToken'', \<lparr>domain = ''localhost'', sameSite = ''strict'',
                            maxAge = 3600000, httpOnly = True\<rparr>),
         (''refreshToken'', \<lparr>domain = ''localhost'', sameSite = ''strict'',
                             maxAge = 31536000000, httpOnly = True\<rparr>)]"
proof -
  have s1: "reported_success (snd (register toy_services alice_register empty_world))"
    by (simp add: register_alice reported_success_def setCookies_def)
  have s2: "reported_success (snd (login toy_services alice_login alice_world))"
    by (simp add: login_alice reported_success_def setCookies_def)
  have s3: "reported_success (snd (refreshTokenGenerate toy_services alice_refresh alice_world))"
    by (simp add: refresh_alice reported_success_def setCookies_def)
  show ?thesis
    using s1 s2 s3
      token_cookie_attributes [of "snd (register toy_services alice_register empty_world)"
        toy_services alice_register empty_world alice_login alice_refresh, OF _ s1]
      token_cookie_attributes [of "snd (login toy_services alice_login alice_world)"
        toy_services alice_register alice_world alice_login alice_refresh, OF _ s2]
      token_cookie_attributes [of "snd (refreshTokenGenerate toy_services alice_refresh alice_world)"
        toy_services alice_register alice_world alice_login alice_refresh, OF _ s3]
    by simp
qed

lemma register_binds:
  assumes "reported_success (snd (register sv rreq w))"
  shows "\<exists>path url u w2 r w3.
           truthy (rr_file rreq) = Some path
         \<and> truthy (fst (upload sv path w)) = Some url
         \<and> createUser sv
              \<lparr>f_userName = rr_userName rreq, f_email = rr_email rreq,
               f_password = hashPassword sv (rr_password rreq), f_bio = rr_bio rreq,
               f_profileImage = url\<rparr> (snd (upload sv path w)) = (u, w2)
         \<and> persistRefreshToken sv u w2 = (r, w3)
         \<and> fst (register sv rreq w) = w3
         \<and> created (snd (register sv rreq w)) = [u]
         \<and> persisted (snd (register sv rreq w)) = [r]
         \<and> cookie_value ''refreshToken'' (snd (register sv rreq w)) =
             Some (generateRefreshToken sv
               \<lparr>sub = u_id u, email = u_email u, id_claim = Some (rt_id r)\<rparr>)"
  using assms
  by (auto simp: register_def Let_def reported_success_def cookie_value_def setCookies_def
      split: list.splits option.splits prod.splits)

lemma login_binds:
  assumes "reported_success (snd (login sv lreq w))"
  shows "\<exists>u r w1.
           findByEmail sv (lr_email lreq) w = Some u
         \<and> comparePassword sv (lr_password lreq) (u_password u)
         \<and> persistRefreshToken sv u w = (r, w1)
         \<and> fst (login sv lreq w) = w1
         \<and> persisted (snd (login sv lreq w)) = [r]
         \<and> cookie_value ''refreshToken'' (snd (login sv lreq w)) =
             Some (generateRefreshToken sv
               \<lparr>sub = u_id u, email = u_email u, id_claim = Some (rt_id r)\<rparr>)"
  using assms
  by (auto simp: login_def Let_def reported_success_def cookie_value_def setCookies_def
      split: list.splits option.splits prod.splits if_splits)

lemma refresh_binds:
  assumes "reported_success (snd (refreshTokenGenerate sv a w))"
  shows "\<exists>u r w1.
           findById sv (auth_sub a) w = Some u
         \<and> persistRefreshToken sv u w = (r, w1)
         \<and> fst (refreshTokenGenerate sv a w) = deleteRefreshToken sv (auth_id a) w1
         \<and> persisted (snd (refreshTokenGenerate sv a w)) = [r]
         \<and> cookie_value ''refreshToken'' (snd (refreshTokenGenerate sv a w)) =
             Some (generateRefreshToken sv
               \<lparr>sub = auth_sub a, email = auth_email a, id_claim = Some (rt_id r)\<rparr>)"
  using assms
  by (auto simp: refreshTokenGenerate_def Let_def reported_success_def cookie_value_def
      setCookies_def split: list.splits option.splits prod.splits)

lemma store_create_id: "store_create uid w = (r, w1) \<Longrightarrow> rt_id r = nextTokenId w"
  by (auto simp: store_create_def Let_def)

lemma store_create_found:
  "store_create uid w = (r, w1) \<Longrightarrow> store_findById (rt_id r) w1 = Some r"
  by (auto simp: store_create_def store_findById_def Let_def)

lemma register_stores_record:
  assumes "reported_success (snd (register (services_of h c up sa sr) rreq w))"
  shows "\<exists>r. persisted (snd (register (services_of h c up sa sr) rreq w)) = [r]
           \<and> store_findById (rt_id r) (fst (register (services_of h c up sa sr) rreq w)) = Some r"
proof -
  from register_binds [OF assms]
  obtain u w2 r w3 where b:
    "persistRefreshToken (services_of h c up sa sr) u w2 = (r, w3)"
    "fst (register (services_of h c up sa sr) rreq w) = w3"
    "persisted (snd (register (services_of h c up sa sr) rreq w)) = [r]"
    by blast
  from b(1) have "store_create (u_id u) w2 = (r, w3)"
    by (simp add: services_of_def JwtTokenService_persistRefreshToken_def)
  then have "store_findById (rt_id r) w3 = Some r"
    by (rule store_create_found)
  with b(2) b(3) show ?thesis
    by blast
qed

lemma login_stores_record:
  assumes "reported_success (snd (login (services_of h c up sa sr) lreq w))"
  shows "\<exists>r. persisted (snd (login (services_of h c up sa sr) lreq w)) = [r]
           \<and> store_findById (rt_id r) (fst (login (services_of h c up sa sr) lreq w)) = Some r"
proof -
  from login_binds [OF assms]
  obtain u r w1 where b:
    "persistRefreshToken (services_of h c up sa sr) u w = (r, w1)"
    "fst (login (services_of h c up sa sr) lreq w) = w1"
    "persisted (snd (login (services_of h c up sa sr) lreq w)) = [r]"
    by blast
  from b(1) have "store_create (u_id u) w = (r, w1)"
    by (simp add: services_of_def JwtTokenService_persistRefreshToken_def)
  then have "store_findById (rt_id r) w1 = Some r"
    by (rule store_create_found)
  with b(2) b(3) show ?thesis
    by blast
qed

lemma refresh_stores_record:
  assumes "reported_success (snd (refreshTokenGenerate (services_of h c up sa sr) a w))"
    and "auth_id a \<noteq> Some (nextTokenId w)"
  shows "\<exists>u r. UserService_findById (auth_sub a) w = Some u \<and> u_id u = auth_sub a
           \<and> persisted (snd (refreshTokenGenerate (services_of h c up sa sr) a w)) = [r]
           \<and> store_findById (rt_id r)
                (fst (refreshTokenGenerate (services_of h c up sa sr) a w)) = Some r"
proof -
  from refresh_binds [OF assms(1)]
  obtain u r w1 where b:
    "findById (services_of h c up sa sr) (auth_sub a) w = Some u"
    "persistRefreshToken (services_of h c up sa sr) u w = (r, w1)"
    "fst (refreshTokenGenerate (services_of h c up sa sr) a w)
       = deleteRefreshToken (services_of h c up sa sr) (auth_id a) w1"
    "persisted (snd (refreshTokenGenerate (services_of h c up sa sr) a w)) = [r]"
    by blast
  from b(1) have u: "UserService_findById (auth_sub a) w = Some u"
    by (simp add: services_of_def)
  then have "u_id u = auth_sub a"
    by (auto simp: UserService_findById_def find_Some_iff)
  moreover from b(2) have c: "store_create (u_id u) w = (r, w1)"
    by (simp add: services_of_def JwtTokenService_persistRefreshToken_def)
  have "store_findById (rt_id r) (JwtTokenService_deleteRefreshToken (auth_id a) w1) = Some r"
    using store_create_found [OF c] store_create_id [OF c] assms(2)
    by (auto simp: JwtTokenService_deleteRefreshToken_def store_deleteById_def
        store_findById_def split: option.splits)
  moreover have "fst (refreshTokenGenerate (services_of h c up sa sr) a w)
                   = JwtTokenService_deleteRefreshToken (auth_id a) w1"
    using b(3) by (simp add: services_of_def)
  ultimately show ?thesis
    using u b(4) by metis
qed

text \<open>
  Claim C3. In every register, login or refresh call that reports success, the handler
  calls \<^verbatim>\<open>persistRefreshToken\<close> once, for the authenticated user; the record that call
  returns is the one in the handler's trace, the state that call leaves is the state the
  handler leaves (for refresh, after the delete of the old record), and the
  \<^verbatim>\<open>refreshToken\<close> cookie holds the token signed over claims whose \<^verbatim>\<open>id\<close> is that
  record's id. The claims' \<^verbatim>\<open>sub\<close> and \<^verbatim>\<open>email\<close> are those of the authenticated user:
  the user just created (register), the user found by email whose password matched
  (login), and for refresh the identity of the presented token, under whose \<^verbatim>\<open>sub\<close> the
  directory holds that user. In the store, looking that record's id up after the call
  finds the record (for refresh, when the presented id is not the id the store allocates
  next).
\<close>

theorem refresh_token_bound_to_record:
  "(reported_success (snd (register sv rreq w)) \<longrightarrow>
      (\<exists>path url u w2 r w3.
           truthy (rr_file rreq) = Some path
         \<and> truthy (fst (upload sv path w)) = Some url
         \<and> createUser sv
              \<lparr>f_userName = rr_userName rreq, f_email = rr_email rreq,
               f_password = hashPassword sv (rr_password rreq), f_bio = rr_bio rreq,
               f_profileImage = url\<rparr> (snd (upload sv path w)) = (u, w2)
         \<and> persistRefreshToken sv u w2 = (r, w3)
         \<and> fst (register sv rreq w) = w3
         \<and> created (snd (register sv rreq w)) = [u]
         \<and> persisted (snd (register sv rreq w)) = [r]
         \<and> cookie_value ''refreshToken'' (snd (register sv rreq w)) =
             Some (generateRefreshToken sv
               \<lparr>sub = u_id u, email = u_email u, id_claim = Some (rt_id r)\<rparr>)))
   \<and> (reported_success (snd (login sv lreq w)) \<longrightarrow>
      (\<exists>u r w1.
           findByEmail sv (lr_email lreq) w = Some u
         \<and> comparePassword sv (lr_password lreq) (u_password u)
         \<and> persistRefreshToken sv u w = (r, w1)
         \<and> fst (login sv lreq w) = w1
         \<and> persisted (snd (login sv lreq w)) = [r]
         \<and> cookie_value ''refreshToken'' (snd (login sv lreq w)) =
             Some (generateRefreshToken sv
               \<lparr>sub = u_id u, email = u_email u, id_claim = Some (rt_id r)\<rparr>)))
   \<and> (reported_success (snd (refreshTokenGenerate sv a w)) \<longrightarrow>
      (\<exists>u r w1.
           findById sv (auth_sub a) w = Some u
         \<and> persistRefreshToken sv u w = (r, w1)
         \<and> fst (refreshTokenGenerate sv a w) = deleteRefreshToken sv (auth_id a) w1
         \<and> persisted (snd (refreshTokenGenerate sv a w)) = [r]
         \<and> cookie_value ''refreshToken'' (snd (refreshTokenGenerate sv a w)) =
             Some (generateRefreshToken sv
               \<lparr>sub = auth_sub a, email = auth_email a, id_claim = Some (rt_id r)\<rparr>)))
   \<and> (reported_success (snd (register (services_of h c up sa sr) rreq sw)) \<longrightarrow>
      (\<exists>r. persisted (snd (register (services_of h c up sa sr) rreq sw)) = [r]
         \<and> store_findById (rt_id r) (fst (register (services_of h c up sa sr) rreq sw))
             = Some r))
   \<and> (reported_success (snd (login (services_of h c up sa sr) lreq sw)) \<longrightarrow>
      (\<exists>r. persisted (snd (login (services_of h c up sa sr) lreq sw)) = [r]
         \<and> store_findById (rt_id r) (fst (login (services_of h c up sa sr) lreq sw))
             = Some r))
   \<and> (reported_success (snd (refreshTokenGenerate (services_of h c up sa sr) a sw))
      \<and> auth_id a \<noteq> Some (nextTokenId sw) \<longrightarrow>
      (\<exists>u r. UserService_findById (auth_sub a) sw = Some u \<and> u_id u = auth_sub a
         \<and> persisted (snd (refreshTokenGenerate (services_of h c up sa sr) a sw)) = [r]
         \<and> store_findById (rt_id r)
              (fst (refreshTokenGenerate (services_of h c up sa sr) a sw)) = Some r))"
  using register_binds [of sv rreq w] login_binds [of sv lreq w] refresh_binds [of sv a w]
    register_stores_record [of h c up sa sr rreq sw]
    login_stores_record [of h c up sa sr lreq sw]
    refresh_stores_record [of h c up sa sr a sw]
  by blast

theorem refresh_token_bound_to_record_witness:
  "reported_success (snd (register toy_services alice_register empty_world))
   \<and> fst (register toy_services alice_register empty_world) = alice_world
   \<and> created (snd (register toy_services alice_register empty_world)) = [alice]
   \<and> persisted (snd (register toy_services alice_register empty_world)) =
        [\<lparr>rt_id = 0, rt_user = 0, rt_expiresAt = 31536000000\<rparr>]
   \<and> cookie_value ''refreshToken'' (snd (register toy_services alice_register empty_world)) =
        Some ''r:a@x.com:|:|''
   \<and> store_findById 0 (fst (register toy_services alice_register empty_world)) =
        Some \<lparr>rt_id = 0, rt_user = 0, rt_expiresAt = 31536000000\<rparr>
   \<and> reported_success (snd (login toy_services alice_login alice_world))
   \<and> findByEmail toy_services (lr_email alice_login) alice_world = Some alice
   \<and> persistRefreshToken toy_services alice alice_world =
        (\<lparr>rt_id = 1, rt_user = 0, rt_expiresAt = 31536000000\<rparr>,
         fst (login toy_services alice_login alice_world))
   \<and> persisted (snd (login toy_services alice_login alice_world)) =
        [\<lparr>rt_id = 1, rt_user = 0, rt_expiresAt = 31536000000\<rparr>]
   \<and> cookie_value ''refreshToken'' (snd (login toy_services alice_login alice_world)) =
        Some ''r:a@x.com:|:||''
   \<and> store_findById 1 (fst (login toy_services alice_login alice_world)) =
        Some \<lparr>rt_id = 1, rt_user = 0, rt_expiresAt = 31536000000\<rparr>
   \<and> reported_success (snd (refreshTokenGenerate toy_services alice_refresh alice_world))
   \<and> auth_id alice_refresh \<noteq> Some (nextTokenId alice_world)
   \<and> findById toy_services (auth_sub alice_refresh) alice_world = Some alice
   \<and> u_id alice = auth_sub alice_refresh
   \<and> persisted (snd (refreshTokenGenerate toy_services alice_refresh alice_world)) =
        [\<lparr>rt_id = 1, rt_user = 0, rt_expiresAt = 31536000000\<rparr>]
   \<and> cookie_value ''refreshToken''
        (snd (refreshTokenGenerate toy_services alice_refresh alice_world)) =
        Some ''r:a@x.com:|:||''
   \<and> store_findById 1 (fst (refreshTokenGenerate toy_services alice_refresh alice_world)) =
        Some \<lparr>rt_id = 1, rt_user = 0, rt_expiresAt = 31536000000\<rparr>"
proof -
  have f: "findByEmail toy_services (lr_email alice_login) alice_world = Some alice"
    by (simp add: toy_defs)
  have i: "findById toy_services (auth_sub alice_refresh) alice_world = Some alice"
    by (simp add: toy_defs)
  have n: "auth_id alice_refresh \<noteq> Some (nextTokenId alice_world)"
    by (simp add: alice_refresh_def alice_world_def)
  have s: "u_id alice = auth_sub alice_refresh"
    by (simp add: alice_def alice_refresh_def)
  have p: "persistRefreshToken toy_services alice alice_world =
        (\<lparr>rt_id = 1, rt_user = 0, rt_expiresAt = 31536000000\<rparr>,
         alice_world
           \<lparr>refreshTokens := (refreshTokens alice_world)
              (1 \<mapsto> \<lparr>rt_id = 1, rt_user = 0, rt_expiresAt = 31536000000\<rparr>),
            nextTokenId := 2\<rparr>)"
    by (simp add: toy_defs Let_def)
  have ok: "reported_success (snd (login toy_services alice_login alice_world))"
    by (simp add: login_alice reported_success_def setCookies_def)
  have one: "persisted (snd (login toy_services alice_login alice_world)) =
               [\<lparr>rt_id = 1, rt_user = 0, rt_expiresAt = 31536000000\<rparr>]"
    by (simp add: login_alice setCookies_def)
  from refresh_token_bound_to_record
         [of toy_services alice_register alice_world alice_login alice_refresh] ok
  obtain u r where
    "findByEmail toy_services (lr_email alice_login) alice_world = Some u"
    "persisted (snd (login toy_services alice_login alice_world)) = [r]"
    "cookie_value ''refreshToken'' (snd (login toy_services alice_login alice_world)) =
       Some (generateRefreshToken toy_services
         \<lparr>sub = u_id u, email = u_email u, id_claim = Some (rt_id r)\<rparr>)"
    by blast
  with f one
  have bound: "cookie_value ''refreshToken'' (snd (login toy_services alice_login alice_world)) =
       Some (generateRefreshToken toy_services
         \<lparr>sub = u_id alice, email = u_email alice, id_claim = Some 1\<rparr>)"
    by simp
  have g: "generateRefreshToken toy_services
             \<lparr>sub = u_id alice, email = u_email alice, id_claim = Some 1\<rparr> = ''r:a@x.com:|:||''"
    by (simp add: toy_services_def services_of_def toy_sign_def toy_tally_def alice_def)
  have login_cookie:
    "cookie_value ''refreshToken'' (snd (login toy_services alice_login alice_world)) =
       Some ''r:a@x.com:|:||''"
    using bound g by simp
  have rest: "reported_success (snd (register toy_services alice_register empty_world))
      \<and> fst (register toy_services alice_register empty_world) = alice_world
      \<and> created (snd (register toy_services alice_register empty_world)) = [alice]
      \<and> persisted (snd (register toy_services alice_register empty_world)) =
           [\<lparr>rt_id = 0, rt_user = 0, rt_expiresAt = 31536000000\<rparr>]
      \<and> cookie_value ''refreshToken'' (snd (register toy_services alice_register empty_world)) =
           Some ''r:a@x.com:|:|''"
    by (simp add: register_alice reported_success_def setCookies_def cookie_value_def)
  have rest0: "store_findById 0 (fst (register toy_services alice_register empty_world)) =
           Some \<lparr>rt_id = 0, rt_user = 0, rt_expiresAt = 31536000000\<rparr>"
    by (simp add: register_alice store_findById_def alice_world_def)
  have rest1: "persistRefreshToken toy_services alice alice_world =
        (\<lparr>rt_id = 1, rt_user = 0, rt_expiresAt = 31536000000\<rparr>,
         fst (login toy_services alice_login alice_world))
      \<and> store_findById 1 (fst (login toy_services alice_login alice_world)) =
           Some \<lparr>rt_id = 1, rt_user = 0, rt_expiresAt = 31536000000\<rparr>"
    by (simp add: p login_alice store_findById_def)
  have rest2: "reported_success (snd (refreshTokenGenerate toy_services alice_refresh alice_world))
      \<and> persisted (snd (refreshTokenGenerate toy_services alice_refresh alice_world)) =
           [\<lparr>rt_id = 1, rt_user = 0, rt_expiresAt = 31536000000\<rparr>]
      \<and> cookie_value ''refreshToken''
           (snd (refreshTokenGenerate toy_services alice_refresh alice_world)) =
           Some ''r:a@x.com:|:||''
      \<and> store_findById 1 (fst (refreshTokenGenerate toy_services alice_refresh alice_world)) =
           Some \<lparr>rt_id = 1, rt_user = 0, rt_expiresAt = 31536000000\<rparr>"
    by (simp add: refresh_alice reported_success_def setCookies_def cookie_value_def
        store_findById_def)
  show ?thesis
    using f i n s ok one login_cookie rest rest0 rest1 rest2 by simp
qed

section \<open>Self\<close>

text \<open>
  Claim C9. A self call answers with exactly what \<^verbatim>\<open>findById\<close> returns for the
  identity's \<^verbatim>\<open>sub\<close>: the user record as a whole, password hash included, when there
  is one, and the JSON value null (not an error) when there is none. It changes no state.
\<close>

theorem self_returns_directory_record:
  "self sv a w = (w, [ResJson (json_of_user (findById sv (auth_sub a) w))])
   \<and> (findById sv (auth_sub a) w = Some u \<longrightarrow> snd (self sv a w) = [ResJson (JUser u)])
   \<and> (findById sv (auth_sub a) w = None \<longrightarrow> snd (self sv a w) = [ResJson JNull])"
  by (simp add: self_def)

theorem self_returns_directory_record_witness:
  "findById toy_services (auth_sub alice_access) alice_world = Some alice
   \<and> self toy_services alice_access alice_world =
       (alice_world,
        [ResJson (JUser \<lparr>u_id = 0, u_userName = ''alice'', u_email = ''a@x.com'',
                         u_password = ''#pw'', u_bio = None,
                         u_profileImage = ''img/a.png''\<rparr>)])
   \<and> findById toy_services (auth_sub ghost_access) alice_world = None
   \<and> self toy_services ghost_access alice_world = (alice_world, [ResJson JNull])"
proof -
  have h1: "findById toy_services (auth_sub alice_access) alice_world = Some alice"
    by (simp add: toy_defs)
  have h2: "findById toy_services (auth_sub ghost_access) alice_world = None"
    by (simp add: toy_defs)
  show ?thesis
    using h1 h2
      self_returns_directory_record [of toy_services alice_access alice_world alice]
      self_returns_directory_record [of toy_services ghost_access alice_world alice]
    by (simp add: alice_def)
qed

section \<open>Refresh\<close>

text \<open>
  Claim C10. A refresh call whose identity's \<^verbatim>\<open>sub\<close> has no user in the directory
  (\<^verbatim>\<open>findById\<close> returns null) fails with error 400 and leaves the state as it was: no
  record is persisted, the old record is not deleted, and no cookie is set.
\<close>

theorem refresh_unknown_user_changes_nothing:
  "findById sv (auth_sub a) w = None \<Longrightarrow>
     refreshTokenGenerate sv a w = (w, [Next (HttpError 400 ''User with token could not found'')])"
  by (simp add: refreshTokenGenerate_def)

theorem refresh_unknown_user_changes_nothing_witness:
  "findById toy_services (auth_sub (ghost_access\<lparr>auth_id := Some 0\<rparr>)) alice_world = None
   \<and> refreshTokenGenerate toy_services (ghost_access\<lparr>auth_id := Some 0\<rparr>) alice_world
       = (alice_world, [Next (HttpError 400 ''User with token could not found'')])"
proof -
  have h: "findById toy_services (auth_sub (ghost_access\<lparr>auth_id := Some 0\<rparr>)) alice_world = None"
    by (simp add: toy_defs)
  show ?thesis
    using h refresh_unknown_user_changes_nothing [OF h] by simp
qed

text \<open>
  Claim C1. Take a refresh call that reports success, presenting the id \<open>old\<close> of a record
  that the store issued earlier. The handler first persists a new record, then deletes
  the old one, then sets the cookies and only then sends its answer. In the state it
  leaves, looking the old id up finds nothing and looking the new id up finds the new
  record.
\<close>

theorem refresh_rotates:
  assumes ok: "reported_success (snd (refreshTokenGenerate (services_of h c up sa sr) a w))"
    and old: "auth_id a = Some old"
    and issued: "old < nextTokenId w"
  shows "\<exists>u new.
           UserService_findById (auth_sub a) w = Some u
         \<and> new = \<lparr>rt_id = nextTokenId w, rt_user = u_id u,
                   rt_expiresAt = clock w + 1000 * 60 * 60 * 24 * 365\<rparr>
         \<and> refreshTokenGenerate (services_of h c up sa sr) a w =
             (store_deleteById old (snd (store_create (u_id u) w)),
              [PersistRefreshToken new, DeleteRefreshToken (Some old)]
              @ setCookies (sa \<lparr>sub = auth_sub a, email = auth_email a, id_claim = None\<rparr>)
                           (sr \<lparr>sub = auth_sub a, email = auth_email a,
                                id_claim = Some (rt_id new)\<rparr>)
              @ [LoggerInfo ''new refresh token generated for'' (Some (auth_sub a)),
                 ResJson (JString ''new refresh token generateds'')])
         \<and> store_findById old (fst (refreshTokenGenerate (services_of h c up sa sr) a w)) = None
         \<and> store_findById (rt_id new) (fst (refreshTokenGenerate (services_of h c up sa sr) a w))
             = Some new"
proof (cases "UserService_findById (auth_sub a) w")
  case None
  then have "snd (refreshTokenGenerate (services_of h c up sa sr) a w)
               = [Next (HttpError 400 ''User with token could not found'')]"
    by (simp add: refreshTokenGenerate_def services_of_def)
  with ok show ?thesis
    by (simp add: reported_success_def)
next
  case (Some u)
  with old issued show ?thesis
    by (simp add: refreshTokenGenerate_def services_of_def Let_def
        JwtTokenService_persistRefreshToken_def JwtTokenService_deleteRefreshToken_def
        store_create_def store_deleteById_def store_findById_def)
qed

theorem refresh_rotates_witness:
  "reported_success (snd (refreshTokenGenerate toy_services alice_refresh alice_world))
   \<and> auth_id alice_refresh = Some 0
   \<and> 0 < nextTokenId alice_world
   \<and> store_findById 0 alice_world = Some \<lparr>rt_id = 0, rt_user = 0, rt_expiresAt = 31536000000\<rparr>
   \<and> snd (refreshTokenGenerate toy_services alice_refresh alice_world) =
       [PersistRefreshToken \<lparr>rt_id = 1, rt_user = 0, rt_expiresAt = 31536000000\<rparr>,
        DeleteRefreshToken (Some 0),
        ResCookie ''accessToken'' ''a:a@x.com:|:-''
          \<lparr>domain = ''localhost'', sameSite = ''strict'', maxAge = 3600000, httpOnly = True\<rparr>,
        ResCookie ''refreshToken'' ''r:a@x.com:|:||''
          \<lparr>domain = ''localhost'', sameSite = ''strict'', maxAge = 31536000000,
           httpOnly = True\<rparr>,
        LoggerInfo ''new refresh token generated for'' (Some 0),
        ResJson (JString ''new refresh token generateds'')]
   \<and> store_findById 0 (fst (refreshTokenGenerate toy_services alice_refresh alice_world)) = None
   \<and> store_findById 1 (fst (refreshTokenGenerate toy_services alice_refresh alice_world))
       = Some \<lparr>rt_id = 1, rt_user = 0, rt_expiresAt = 31536000000\<rparr>"
proof -
  have ok: "reported_success (snd (refreshTokenGenerate
              (services_of toy_hash toy_compare toy_upload (toy_sign ''a'') (toy_sign ''r''))
              alice_refresh alice_world))"
    using refresh_alice by (simp add: toy_services_def reported_success_def setCookies_def)
  have old: "auth_id alice_refresh = Some 0"
    by (simp add: alice_refresh_def)
  have issued: "0 < nextTokenId alice_world"
    by (simp add: alice_world_def)
  have before: "store_findById 0 alice_world
                  = Some \<lparr>rt_id = 0, rt_user = 0, rt_expiresAt = 31536000000\<rparr>"
    by (simp add: store_findById_def alice_world_def)
  show ?thesis
    using ok old issued before refresh_rotates [OF ok old issued]
    by (simp add: toy_services_def [symmetric] refresh_alice setCookies_def
        store_findById_def)
qed

section \<open>Logout\<close>

text \<open>
  Claim C4. A logout call with a refresh-token identity (its \<^verbatim>\<open>id\<close> present) deletes the
  record with that id from the store, then clears the \<^verbatim>\<open>accessToken\<close> and the
  \<^verbatim>\<open>refreshToken\<close> cookie, and only then sends its answer; in the state it leaves,
  looking the id up finds nothing.
\<close>

theorem logout_revokes:
  assumes "auth_id a = Some i"
  shows "logout (services_of h c up sa sr) a w =
           (store_deleteById i w,
            [DeleteRefreshToken (Some i),
             LoggerInfo ''Refresh token has been deleted'' (Some i),
             ResClearCookie ''accessToken'', ResClearCookie ''refreshToken'',
             ResJson (JString ''Successfully logged out'')])
       \<and> store_findById i (fst (logout (services_of h c up sa sr) a w)) = None"
  using assms
  by (simp add: logout_def services_of_def Let_def JwtTokenService_deleteRefreshToken_def
      store_deleteById_def store_findById_def)

theorem logout_revokes_witness:
  "auth_id alice_refresh = Some 0
   \<and> store_findById 0 alice_world = Some \<lparr>rt_id = 0, rt_user = 0, rt_expiresAt = 31536000000\<rparr>
   \<and> logout toy_services alice_refresh alice_world =
       (alice_world\<lparr>refreshTokens := Map.empty\<rparr>,
        [DeleteRefreshToken (Some 0),
         LoggerInfo ''Refresh token has been deleted'' (Some 0),
         ResClearCookie ''accessToken'', ResClearCookie ''refreshToken'',
         ResJson (JString ''Successfully logged out'')])
   \<and> store_findById 0 (fst (logout toy_services alice_refresh alice_world)) = None"
proof -
  have h: "auth_id alice_refresh = Some 0"
    by (simp add: alice_refresh_def)
  have before: "store_findById 0 alice_world
                  = Some \<lparr>rt_id = 0, rt_user = 0, rt_expiresAt = 31536000000\<rparr>"
    by (simp add: store_findById_def alice_world_def)
  have after: "store_deleteById 0 alice_world = alice_world\<lparr>refreshTokens := Map.empty\<rparr>"
    by (simp add: store_deleteById_def alice_world_def)
  show ?thesis
    using h before logout_revokes [OF h, of toy_hash toy_compare toy_upload "toy_sign ''a''"
        "toy_sign ''r''" alice_world]
    by (simp add: toy_services_def [symmetric] after store_findById_def)
qed

section \<open>Login after registration\<close>

lemma find_append_Some: "find P xs = Some x \<Longrightarrow> find P (xs @ ys) = Some x"
  by (induction xs) (auto split: if_splits)

lemma find_append_None: "find P xs = None \<Longrightarrow> find P (xs @ ys) = find P ys"
  by (induction xs) (auto split: if_splits)

text \<open>
  No handler lowers the store's id counter or removes a user: every call leaves the
  counter at least where it was and the user list extended at its end.
\<close>

lemma deleteRefreshToken_later:
  "nextTokenId (JwtTokenService_deleteRefreshToken i w) = nextTokenId w
   \<and> users (JwtTokenService_deleteRefreshToken i w) = users w"
  by (simp add: JwtTokenService_deleteRefreshToken_def store_deleteById_def split: option.splits)

lemma register_later:
  "nextTokenId w \<le> nextTokenId (fst (register (services_of h c up sa sr) req w))
   \<and> (\<exists>us. users (fst (register (services_of h c up sa sr) req w)) = users w @ us)"
  by (simp add: register_def services_of_def Let_def UserService_createUser_def
      JwtTokenService_persistRefreshToken_def store_create_def
      split: list.splits option.splits prod.splits)

lemma login_later:
  "nextTokenId w \<le> nextTokenId (fst (login (services_of h c up sa sr) req w))
   \<and> users (fst (login (services_of h c up sa sr) req w)) = users w"
  by (simp add: login_def services_of_def Let_def
      JwtTokenService_persistRefreshToken_def store_create_def
      split: list.splits option.splits prod.splits)

lemma refresh_later:
  "nextTokenId w \<le> nextTokenId (fst (refreshTokenGenerate (services_of h c up sa sr) a w))
   \<and> users (fst (refreshTokenGenerate (services_of h c up sa sr) a w)) = users w"
  by (simp add: refreshTokenGenerate_def services_of_def Let_def deleteRefreshToken_later
      JwtTokenService_persistRefreshToken_def store_create_def
      split: list.splits option.splits prod.splits)

lemma logout_later:
  "nextTokenId (fst (logout (services_of h c up sa sr) a w)) = nextTokenId w
   \<and> users (fst (logout (services_of h c up sa sr) a w)) = users w"
  by (simp add: logout_def services_of_def Let_def deleteRefreshToken_later)

lemma handle_later:
  "nextTokenId w \<le> nextTokenId (fst (handle (services_of h c up sa sr) r w))
   \<and> (\<exists>us. users (fst (handle (services_of h c up sa sr) r w)) = users w @ us)"
proof (cases r)
  case (Register req)
  then show ?thesis using register_later [of w h c up sa sr req] by simp
next
  case (Login req)
  then show ?thesis using login_later [of w h c up sa sr req] by simp
next
  case (Self a)
  then show ?thesis by (simp add: self_def)
next
  case (Refresh a)
  then show ?thesis using refresh_later [of w h c up sa sr a] by simp
next
  case (Logout a)
  then show ?thesis using logout_later [of h c up sa sr a w] by simp
qed

lemma run_later:
  "nextTokenId w \<le> nextTokenId (run (services_of h c up sa sr) rs w)
   \<and> (\<exists>us. users (run (services_of h c up sa sr) rs w) = users w @ us)"
proof (induction rs arbitrary: w)
  case Nil
  then show ?case by simp
next
  case (Cons r rs)
  let ?w1 = "fst (handle (services_of h c up sa sr) r w)"
  from handle_later [of w h c up sa sr r]
  obtain us1 where 1: "nextTokenId w \<le> nextTokenId ?w1" "users ?w1 = users w @ us1"
    by blast
  from Cons.IH [of ?w1]
  obtain us2 where 2: "nextTokenId ?w1 \<le> nextTokenId (run (services_of h c up sa sr) rs ?w1)"
    "users (run (services_of h c up sa sr) rs ?w1) = users ?w1 @ us2"
    by blast
  from 1 2 show ?case by simp
qed

lemma run_keeps_email:
  assumes "UserService_findByEmail e w = Some u"
  shows "UserService_findByEmail e (run (services_of h c up sa sr) rs w) = Some u"
proof -
  from run_later [of w h c up sa sr rs]
  obtain us where "users (run (services_of h c up sa sr) rs w) = users w @ us"
    by blast
  with assms show ?thesis
    by (simp add: UserService_findByEmail_def find_append_Some)
qed

lemma register_stores_hash:
  assumes "reported_success (snd (register (services_of h c up sa sr) req w))"
    and "UserService_findByEmail (rr_email req) w = None"
  shows "\<exists>u. UserService_findByEmail (rr_email req)
                (fst (register (services_of h c up sa sr) req w)) = Some u
            \<and> u_password u = h (rr_password req)"
  using assms
  by (auto simp: register_def services_of_def Let_def UserService_createUser_def
      UserService_findByEmail_def find_append_None reported_success_def
      JwtTokenService_persistRefreshToken_def store_create_def
      split: list.splits option.splits prod.splits)

lemma login_accepts:
  assumes "lr_validation req = []"
    and "UserService_findByEmail (lr_email req) w = Some u"
    and "c (lr_password req) (u_password u)"
  shows "reported_success (snd (login (services_of h c up sa sr) req w))"
  using assms
  by (simp add: login_def services_of_def Let_def reported_success_def setCookies_def
      split: prod.splits)

lemma login_allocates:
  assumes "reported_success (snd (login (services_of h c up sa sr) req w))"
  shows "\<exists>r. persisted (snd (login (services_of h c up sa sr) req w)) = [r]
            \<and> rt_id r = nextTokenId w
            \<and> nextTokenId (fst (login (services_of h c up sa sr) req w)) = Suc (nextTokenId w)"
  using assms
  by (auto simp: login_def services_of_def Let_def reported_success_def setCookies_def
      JwtTokenService_persistRefreshToken_def store_create_def
      split: list.splits option.splits prod.splits if_splits)

text \<open>
  Claim C7. Calls are executed one after another. First part: a user registers with an
  email that was not registered before and a secret whose hash the verifier accepts; then
  every later login with that pair that passes input validation reports success, whatever
  calls ran in between. Second part: of two login calls that report success, the later one
  persists a refresh-token record whose id differs from the earlier one's, whatever calls
  ran in between.
\<close>

theorem login_after_register:
  "(c (rr_password rreq) (h (rr_password rreq))
    \<and> reported_success (snd (register (services_of h c up sa sr) rreq w))
    \<and> UserService_findByEmail (rr_email rreq) w = None
    \<and> lr_validation l = [] \<and> lr_email l = rr_email rreq \<and> lr_password l = rr_password rreq
    \<longrightarrow> reported_success (snd (login (services_of h c up sa sr) l
           (run (services_of h c up sa sr) rs
              (fst (register (services_of h c up sa sr) rreq w))))))
   \<and> (reported_success (snd (login (services_of h c up sa sr) la wa))
      \<and> reported_success (snd (login (services_of h c up sa sr) lb
           (run (services_of h c up sa sr) between
              (fst (login (services_of h c up sa sr) la wa)))))
      \<longrightarrow> (\<exists>ra rb. persisted (snd (login (services_of h c up sa sr) la wa)) = [ra]
              \<and> persisted (snd (login (services_of h c up sa sr) lb
                   (run (services_of h c up sa sr) between
                      (fst (login (services_of h c up sa sr) la wa))))) = [rb]
              \<and> rt_id ra \<noteq> rt_id rb))"
proof (intro conjI impI)
  assume asm: "c (rr_password rreq) (h (rr_password rreq))
    \<and> reported_success (snd (register (services_of h c up sa sr) rreq w))
    \<and> UserService_findByEmail (rr_email rreq) w = None
    \<and> lr_validation l = [] \<and> lr_email l = rr_email rreq \<and> lr_password l = rr_password rreq"
  then have registered: "reported_success (snd (register (services_of h c up sa sr) rreq w))"
    and once: "UserService_findByEmail (rr_email rreq) w = None"
    by simp_all
  from register_stores_hash [OF registered once]
  obtain u where u: "UserService_findByEmail (rr_email rreq)
                       (fst (register (services_of h c up sa sr) rreq w)) = Some u"
    "u_password u = h (rr_password rreq)"
    by blast
  have found: "UserService_findByEmail (lr_email l)
          (run (services_of h c up sa sr) rs
             (fst (register (services_of h c up sa sr) rreq w))) = Some u"
    using run_keeps_email [OF u(1)] asm by simp
  have matches: "c (lr_password l) (u_password u)"
    using asm u(2) by simp
  have valid: "lr_validation l = []"
    using asm by simp
  show "reported_success (snd (login (services_of h c up sa sr) l
           (run (services_of h c up sa sr) rs
              (fst (register (services_of h c up sa sr) rreq w)))))"
    using valid found matches by (rule login_accepts)
next
  let ?S = "services_of h c up sa sr"
  let ?w1 = "fst (login ?S la wa)"
  let ?w2 = "run ?S between ?w1"
  assume "reported_success (snd (login ?S la wa))
      \<and> reported_success (snd (login ?S lb ?w2))"
  then have first: "reported_success (snd (login ?S la wa))"
    and second: "reported_success (snd (login ?S lb ?w2))"
    by simp_all
  from login_allocates [OF first]
  obtain ra where ra: "persisted (snd (login ?S la wa)) = [ra]" "rt_id ra = nextTokenId wa"
    "nextTokenId ?w1 = Suc (nextTokenId wa)"
    by blast
  from login_allocates [OF second]
  obtain rb where rb: "persisted (snd (login ?S lb ?w2)) = [rb]" "rt_id rb = nextTokenId ?w2"
    by blast
  from run_later [of ?w1 h c up sa sr between]
  have "nextTokenId ?w1 \<le> nextTokenId ?w2"
    by blast
  with ra rb have "rt_id ra \<noteq> rt_id rb"
    by simp
  with ra(1) rb(1)
  show "\<exists>ra rb. persisted (snd (login ?S la wa)) = [ra]
              \<and> persisted (snd (login ?S lb ?w2)) = [rb]
              \<and> rt_id ra \<noteq> rt_id rb"
    by blast
qed

theorem login_after_register_witness:
  "toy_compare (rr_password alice_register) (toy_hash (rr_password alice_register))
   \<and> reported_success (snd (register toy_services alice_register empty_world))
   \<and> UserService_findByEmail (rr_email alice_register) empty_world = None
   \<and> lr_validation alice_login = []
   \<and> lr_email alice_login = rr_email alice_register
   \<and> lr_password alice_login = rr_password alice_register
   \<and> reported_success (snd (login toy_services alice_login
        (run toy_services [Logout alice_refresh, Login ghost_login]
           (fst (register toy_services alice_register empty_world)))))
   \<and> reported_success (snd (login toy_services alice_login alice_world))
   \<and> reported_success (snd (login toy_services alice_login
        (run toy_services [Refresh alice_refresh]
           (fst (login toy_services alice_login alice_world)))))
   \<and> map rt_id (persisted (snd (login toy_services alice_login alice_world))) = [1]
   \<and> map rt_id (persisted (snd (login toy_services alice_login
        (run toy_services [Refresh alice_refresh]
           (fst (login toy_services alice_login alice_world)))))) = [3]"
proof -
  let ?S = "services_of toy_hash toy_compare toy_upload (toy_sign ''a'') (toy_sign ''r'')"
  have S: "toy_services = ?S"
    by (simp add: toy_services_def)
  have verify: "toy_compare (rr_password alice_register) (toy_hash (rr_password alice_register))"
    by (simp add: toy_compare_def)
  have registered: "reported_success (snd (register ?S alice_register empty_world))"
    using register_alice by (simp add: S reported_success_def setCookies_def)
  have once: "UserService_findByEmail (rr_email alice_register) empty_world = None"
    by (simp add: UserService_findByEmail_def empty_world_def)
  have pair: "lr_validation alice_login = [] \<and> lr_email alice_login = rr_email alice_register
              \<and> lr_password alice_login = rr_password alice_register"
    by (simp add: alice_login_def alice_register_def)
  have first: "reported_success (snd (login ?S alice_login alice_world))"
    using login_alice by (simp add: S reported_success_def setCookies_def)
  have w2: "run ?S [Refresh alice_refresh] (fst (login ?S alice_login alice_world)) =
              alice_world
                \<lparr>refreshTokens :=
                   [1 \<mapsto> \<lparr>rt_id = 1, rt_user = 0, rt_expiresAt = 31536000000\<rparr>,
                    2 \<mapsto> \<lparr>rt_id = 2, rt_user = 0, rt_expiresAt = 31536000000\<rparr>],
                 nextTokenId := 3\<rparr>"
    using login_alice
    by (simp add: S refreshTokenGenerate_def Let_def services_of_def alice_refresh_def
        alice_world_def alice_def UserService_findById_def
        JwtTokenService_persistRefreshToken_def JwtTokenService_deleteRefreshToken_def
        store_create_def store_deleteById_def fun_upd_twist)
  have third: "map rt_id (persisted (snd (login ?S alice_login
                 (run ?S [Refresh alice_refresh] (fst (login ?S alice_login alice_world))))))
               = [3]"
    unfolding w2
    by (simp add: login_def Let_def services_of_def alice_login_def alice_world_def
        alice_def UserService_findByEmail_def toy_compare_def toy_hash_def
        JwtTokenService_persistRefreshToken_def store_create_def setCookies_def)
  have second: "reported_success (snd (login ?S alice_login
                 (run ?S [Refresh alice_refresh] (fst (login ?S alice_login alice_world)))))"
    unfolding w2
    by (simp add: login_def Let_def services_of_def alice_login_def alice_world_def
        alice_def UserService_findByEmail_def toy_compare_def toy_hash_def
        JwtTokenService_persistRefreshToken_def store_create_def setCookies_def
        reported_success_def)
  have one: "map rt_id (persisted (snd (login ?S alice_login alice_world))) = [1]"
    using login_alice by (simp add: S setCookies_def)
  from login_after_register
    [of toy_compare alice_register toy_hash toy_upload "toy_sign ''a''" "toy_sign ''r''"
        empty_world alice_login "[Logout alice_refresh, Login ghost_login]"
        alice_login alice_world alice_login "[Refresh alice_refresh]"]
    verify registered once pair first second
  have "reported_success (snd (login ?S alice_login
          (run ?S [Logout alice_refresh, Login ghost_login]
             (fst (register ?S alice_register empty_world)))))"
    by blast
  with verify registered once pair first second one third show ?thesis
    by (simp add: S)
qed

section \<open>Two refresh calls at once\<close>

text \<open>Taken one after another, the handler's steps give what the handler gives.\<close>

lemma handler_in_steps:
  "(case refresh_step sv guard a AtFindById w of
      (p1, w1) \<Rightarrow> (case refresh_step sv guard a p1 w1 of
        (p2, w2) \<Rightarrow> refresh_step sv guard a p2 w2))
   = (Finished (snd (refreshTokenGenerate sv a w)), fst (refreshTokenGenerate sv a w))"
  by (simp add: refreshTokenGenerate_def Let_def split: option.splits prod.splits)


















end
